theory Spec2Isabelle
  imports Complex_Main "HOL-Library.DAList"
begin

section \<open>Python values used by OSCeleton.py\<close>

text \<open>
  The module is Python 2. Exceptions are values of \<open>py_error\<close>. A \<open>dict\<close> is an
  association list with distinct keys (\<open>DAList\<close>): \<open>d[k] = v\<close> is \<open>DAList.update\<close>,
  \<open>del d[k]\<close> is \<open>DAList.delete\<close> guarded by the membership test that decides whether
  Python raises KeyError, \<open>k in d\<close> is \<open>dict_has\<close>. The order in which a Python 2
  dict lists its entries is not specified by the language; the list order of the model
  is a representation choice and no statement below depends on it.

  Coordinates are Python floats in the running system. They are modelled as \<open>real\<close>:
  the arithmetic of the model is exact, rounding and overflow are not represented.
\<close>

datatype py_error = KeyError | ValueError | IndexError | ZeroDivisionError

type_synonym ('k, 'v) dict = "('k, 'v) alist"

definition dict_has :: "'k \<Rightarrow> ('k, 'v) dict \<Rightarrow> bool" where
  "dict_has k d = (DAList.lookup d k \<noteq> None)"

definition dict_keys :: "('k, 'v) dict \<Rightarrow> 'k list" where
  "dict_keys d = map fst (DAList.impl_of d)"

definition dict_values :: "('k, 'v) dict \<Rightarrow> 'v list" where
  "dict_values d = map snd (DAList.impl_of d)"

definition dict_items :: "('k, 'v) dict \<Rightarrow> ('k \<times> 'v) list" where
  "dict_items d = DAList.impl_of d"

text \<open>
  The first argument of a joint or orientation message is an integer or a string; the
  handlers pass it through \<open>str\<close> before using it as a key.
\<close>

datatype osc_label = LabelInt int | LabelStr string

fun str_nat :: "nat \<Rightarrow> string" where
  "str_nat n =
     (if n < 10 then [''0123456789'' ! n]
      else str_nat (n div 10) @ [''0123456789'' ! (n mod 10)])"

declare str_nat.simps [simp del]

fun str :: "osc_label \<Rightarrow> string" where
  "str (LabelInt i) = (if i < 0 then CHR ''-'' # str_nat (nat (- i)) else str_nat (nat i))"
| "str (LabelStr s) = s"

section \<open>Point\<close>

text \<open>
  The slots \<open>x\<close>, \<open>y\<close>, \<open>z\<close> of the class are the fields \<open>pt_x\<close>, \<open>pt_y\<close>,
  \<open>pt_z\<close>. The class holds whatever numbers it is given, so the record leaves the type
  of the coordinates open.
\<close>

record 'a Point =
  pt_x :: 'a
  pt_y :: 'a
  pt_z :: 'a

definition Point_init :: "'a \<Rightarrow> 'a \<Rightarrow> 'a \<Rightarrow> 'a Point" where
  "Point_init x y z = \<lparr>pt_x = x, pt_y = y, pt_z = z\<rparr>"

definition Point_copy :: "'a Point \<Rightarrow> 'a Point" where
  "Point_copy self = Point_init (pt_x self) (pt_y self) (pt_z self)"

section \<open>Skeleton\<close>

text \<open>The attribute \<open>id\<close> of the class is the field \<open>skel_id\<close>.\<close>

record Skeleton =
  skel_id :: int
  joints :: "(string, real Point) dict"
  orient :: "(string, real list list) dict"

definition Skeleton_init :: "int \<Rightarrow> Skeleton" where
  "Skeleton_init user = \<lparr>skel_id = user, joints = DAList.empty, orient = DAList.empty\<rparr>"

definition contains :: "Skeleton \<Rightarrow> string list \<Rightarrow> bool" where
  "contains self wanted = (set wanted \<subseteq> set (dict_keys (joints self)))"

definition setitem :: "Skeleton \<Rightarrow> string \<Rightarrow> real Point \<Rightarrow> Skeleton" where
  "setitem self key val = self\<lparr>joints := DAList.update key val (joints self)\<rparr>"

definition getitem :: "Skeleton \<Rightarrow> string \<Rightarrow> py_error + real Point" where
  "getitem self key =
     (case DAList.lookup (joints self) key of None \<Rightarrow> Inl KeyError | Some p \<Rightarrow> Inr p)"

definition copy_joints :: "Skeleton \<Rightarrow> (string, real Point) dict" where
  "copy_joints self =
     fold (\<lambda>(jointName, pnt) js. DAList.update jointName (Point_copy pnt) js)
       (dict_items (joints self)) DAList.empty"

definition clear :: "Skeleton \<Rightarrow> Skeleton" where
  "clear self = self\<lparr>joints := DAList.empty, orient := DAList.empty\<rparr>"

section \<open>OSCeleton\<close>

text \<open>
  The attribute \<open>_users\<close> (the snapshots being assembled) is the field \<open>users_priv\<close>;
  \<open>users\<close> holds the completed snapshots. A handler receives the decoded arguments
  of a message: the user id, and for joint and orientation messages the label, the user
  id and the list of the remaining arguments \<open>args[2:]\<close>. The dicts and the list are
  class attributes in the source, shared by every instance; the record is the state of
  a process that runs one aggregator.
\<close>

record OSCeleton =
  users :: "(int, Skeleton) dict"
  users_priv :: "(int, Skeleton) dict"
  frames :: int
  lostUsers :: "int list"
  realWorld :: bool

definition OSCeleton_init :: OSCeleton where
  "OSCeleton_init =
     \<lparr>users = DAList.empty, users_priv = DAList.empty, frames = 0, lostUsers = [],
      realWorld = False\<rparr>"

definition new_user_callback :: "OSCeleton \<Rightarrow> int \<Rightarrow> OSCeleton" where
  "new_user_callback self u =
     self\<lparr>users_priv := DAList.update u (Skeleton_init u) (users_priv self)\<rparr>"

text \<open>
  The three statements of \<open>lost_user_callback\<close> run inside one \<open>try\<close>; a KeyError
  raised by either \<open>del\<close> leaves the block and is swallowed.
\<close>

definition lost_user_callback :: "OSCeleton \<Rightarrow> int \<Rightarrow> OSCeleton" where
  "lost_user_callback self u =
     (if \<not> dict_has u (users_priv self) then self
      else
        let s1 = self\<lparr>users_priv := DAList.delete u (users_priv self)\<rparr>;
            s2 = s1\<lparr>lostUsers := lostUsers s1 @ [u]\<rparr>
        in if \<not> dict_has u (users s2) then s2
           else s2\<lparr>users := DAList.delete u (users s2)\<rparr>)"

definition do_nothing_callback :: "OSCeleton \<Rightarrow> OSCeleton" where
  "do_nothing_callback self = self"

definition new_skeleton_callback :: "OSCeleton \<Rightarrow> int \<Rightarrow> OSCeleton" where
  "new_skeleton_callback self u = self"

text \<open>The guard shared by the joint and the orientation handler.\<close>

definition ensure_user :: "OSCeleton \<Rightarrow> int \<Rightarrow> OSCeleton" where
  "ensure_user self u =
     (if \<not> dict_has u (users_priv self)
      then self\<lparr>users_priv := DAList.update u (Skeleton_init u) (users_priv self)\<rparr>
      else self)"

text \<open>
  The body of \<open>if str(args[0]) in self._users[args[1]].joints\<close>: the snapshot \<open>sk\<close>
  being assembled for \<open>u\<close> is copied into \<open>users[u]\<close> (created when absent), then
  cleared in place, and the frame counter is incremented. \<open>orient.copy()\<close> is a new
  dict with the same entries, which as a value is \<open>orient sk\<close>.
\<close>

definition promote :: "OSCeleton \<Rightarrow> int \<Rightarrow> Skeleton \<Rightarrow> OSCeleton" where
  "promote self u sk =
     (let s1 = (if \<not> dict_has u (users self)
                then self\<lparr>users := DAList.update u (Skeleton_init u) (users self)\<rparr>
                else self)
      in case DAList.lookup (users s1) u of
           None \<Rightarrow> s1
         | Some done \<Rightarrow>
             let done1 = done\<lparr>joints := copy_joints sk\<rparr>;
                 done2 = done1\<lparr>orient := orient sk\<rparr>;
                 s2 = s1\<lparr>users := DAList.update u done2 (users s1)\<rparr>;
                 s3 = s2\<lparr>users_priv := DAList.update u (clear sk) (users_priv s2)\<rparr>
             in s3\<lparr>frames := frames s3 + 1\<rparr>)"

definition store_joint :: "OSCeleton \<Rightarrow> int \<Rightarrow> string \<Rightarrow> real Point \<Rightarrow> OSCeleton \<times> py_error option" where
  "store_joint self u key p =
     (case DAList.lookup (users_priv self) u of
        None \<Rightarrow> (self, Some KeyError)
      | Some sk \<Rightarrow> (self\<lparr>users_priv := DAList.update u (setitem sk key p) (users_priv self)\<rparr>, None))"

text \<open>
  \<open>joint_callback\<close> returns the state it leaves behind together with the exception it
  raised, if any: an exception does not undo the assignments made before it. With
  \<open>realWorld\<close> set the handler reads \<open>args[2]\<close>, \<open>args[3]\<close>, \<open>args[4]\<close> (IndexError
  when one is missing, further arguments ignored); otherwise it unpacks \<open>args[2:]\<close>
  into exactly three names (ValueError for any other length).
\<close>

definition joint_callback ::
  "OSCeleton \<Rightarrow> osc_label \<Rightarrow> int \<Rightarrow> real list \<Rightarrow> OSCeleton \<times> py_error option" where
  "joint_callback self label u coords =
     (let s1 = ensure_user self u in
      case DAList.lookup (users_priv s1) u of
        None \<Rightarrow> (s1, Some KeyError)
      | Some sk \<Rightarrow>
          let s2 = (if dict_has (str label) (joints sk) then promote s1 u sk else s1) in
          if realWorld s2 then
            (if length coords < 3 then (s2, Some IndexError)
             else
               let x = 1280 - coords ! 0 * 2560;
                   y = 960 - coords ! 1 * 1920;
                   z = - (coords ! 2) * 1280
               in store_joint s2 u (str label) (Point_init x y z))
          else
            (case coords of
               [x, y, z] \<Rightarrow> store_joint s2 u (str label) (Point_init x y z)
             | _ \<Rightarrow> (s2, Some ValueError)))"

definition orient_callback :: "OSCeleton \<Rightarrow> osc_label \<Rightarrow> int \<Rightarrow> real list \<Rightarrow> OSCeleton \<times> py_error option" where
  "orient_callback self label u ms =
     (let s1 = ensure_user self u;
          x = take 3 ms;
          y = take 3 (drop 3 ms);
          z = drop 6 ms
      in case DAList.lookup (users_priv s1) u of
           None \<Rightarrow> (s1, Some KeyError)
         | Some sk \<Rightarrow>
             (s1\<lparr>users_priv :=
                   DAList.update u (sk\<lparr>orient := DAList.update (str label) [x, y, z] (orient sk)\<rparr>)
                     (users_priv s1)\<rparr>, None))"

definition get_users :: "OSCeleton \<Rightarrow> int list" where
  "get_users self = dict_keys (users_priv self)"

text \<open>
  \<open>self.users.values()\<close> is a fresh list in Python 2, so clearing the dict afterwards
  does not empty the list that is returned.
\<close>

definition get_new_skeletons :: "OSCeleton \<Rightarrow> Skeleton list \<times> OSCeleton" where
  "get_new_skeletons self =
     (let tmp = dict_values (users self) in (tmp, self\<lparr>users := DAList.empty\<rparr>))"

section \<open>Runs of the aggregator\<close>

text \<open>
  One event is a message routed to its handler, a call of an accessor, or an assignment
  to the \<open>realWorld\<close> flag. \<open>step\<close> gives the state after the event, also when the
  handler raised.
\<close>

datatype event =
    NewUser int
  | LostUser int
  | NewSkel int
  | Joint osc_label int "real list"
  | Orient osc_label int "real list"
  | Unrecognized
  | GetUsers
  | GetNewSkeletons
  | SetRealWorld bool

fun step :: "OSCeleton \<Rightarrow> event \<Rightarrow> OSCeleton" where
  "step s (NewUser u) = new_user_callback s u"
| "step s (LostUser u) = lost_user_callback s u"
| "step s (NewSkel u) = new_skeleton_callback s u"
| "step s (Joint l u cs) = fst (joint_callback s l u cs)"
| "step s (Orient l u ms) = fst (orient_callback s l u ms)"
| "step s Unrecognized = do_nothing_callback s"
| "step s GetUsers = s"
| "step s GetNewSkeletons = snd (get_new_skeletons s)"
| "step s (SetRealWorld b) = s\<lparr>realWorld := b\<rparr>"

definition run :: "OSCeleton \<Rightarrow> event list \<Rightarrow> OSCeleton" where
  "run s evs = foldl step s evs"

section \<open>Facts about dictionaries\<close>

lemma Point_copy_id: "Point_copy p = p"
  by (simp add: Point_copy_def Point_init_def)

lemma dict_has_empty [simp]: "\<not> dict_has k DAList.empty"
  by (simp add: dict_has_def)

lemma dict_has_update [simp]:
  "dict_has k (DAList.update k' v d) = (k = k' \<or> dict_has k d)"
  by (auto simp: dict_has_def DAList.lookup_update)

lemma dict_has_delete [simp]:
  "dict_has k (DAList.delete k' d) = (k \<noteq> k' \<and> dict_has k d)"
  by (simp add: dict_has_def)

lemma dict_has_lookup: "dict_has k d = (\<exists>v. DAList.lookup d k = Some v)"
  by (simp add: dict_has_def)

lemma set_dict_keys: "set (dict_keys d) = {k. dict_has k d}"
  unfolding dict_keys_def dict_has_def
  by transfer (force simp: map_of_eq_None_iff)

lemma dict_keys_empty [simp]: "dict_keys DAList.empty = []"
  by (simp add: dict_keys_def DAList.empty.rep_eq)

lemma dict_values_empty [simp]: "dict_values DAList.empty = []"
  by (simp add: dict_values_def DAList.empty.rep_eq)

text \<open>
  Storing the entries of a dict one after the other into a dict that has none of their
  keys appends them: the loop of \<open>copy_joints\<close> rebuilds the dict it reads.
\<close>

lemma fold_update_fresh:
  "distinct (map fst xs) \<Longrightarrow> fst ` set acc \<inter> fst ` set xs = {} \<Longrightarrow>
   fold (\<lambda>(k, v) js. AList.update k v js) xs acc = acc @ xs"
proof (induction xs arbitrary: acc)
  case Nil
  then show ?case by simp
next
  case (Cons a xs)
  obtain k v where a: "a = (k, v)" by (cases a)
  from Cons.prems have knew: "k \<notin> fst ` set acc" by (auto simp: a)
  then have upd: "AList.update k v acc = acc @ [(k, v)]"
    by (induction acc) auto
  have "fold (\<lambda>(k, v) js. AList.update k v js) xs (acc @ [(k, v)]) = (acc @ [(k, v)]) @ xs"
    using Cons.prems by (intro Cons.IH) (auto simp: a)
  then show ?case by (simp add: a upd)
qed

lemma impl_of_fold_update:
  "DAList.impl_of (fold (\<lambda>(k, v) js. DAList.update k (f v) js) xs acc) =
   fold (\<lambda>(k, v) js. AList.update k (f v) js) xs (DAList.impl_of acc)"
  by (induction xs arbitrary: acc) (auto simp: DAList.update.rep_eq)

lemma copy_joints_eq: "copy_joints sk = joints sk"
proof -
  have "DAList.impl_of (copy_joints sk) =
        fold (\<lambda>(k, v) js. AList.update k v js) (DAList.impl_of (joints sk)) []"
    using impl_of_fold_update [of "\<lambda>v. v" "DAList.impl_of (joints sk)" DAList.empty]
    by (simp add: copy_joints_def dict_items_def Point_copy_id DAList.empty.rep_eq)
  also have "\<dots> = [] @ DAList.impl_of (joints sk)"
    by (rule fold_update_fresh) simp_all
  finally show ?thesis by (simp add: DAList.alist_eq_iff)
qed

section \<open>Skeleton membership\<close>

text \<open>
  Claim C7. For every skeleton \<open>s\<close> and every collection of labels \<open>ws\<close>, the
  membership test \<open>ws in s\<close> is true exactly when every label of \<open>ws\<close> is a key of
  the joints of \<open>s\<close>; whatever the orientations of \<open>s\<close> hold, the answer is the same.
\<close>

theorem contains_iff_joint_keys:
  "contains s ws = (\<forall>w \<in> set ws. dict_has w (joints s)) \<and>
   contains (s\<lparr>orient := ori\<rparr>) ws = contains s ws"
  by (auto simp: contains_def set_dict_keys)

theorem contains_iff_joint_keys_witness:
  "dict_has ''head'' (joints
      (setitem (setitem (Skeleton_init 1) ''head'' (Point_init 1 2 3)) ''neck'' (Point_init 0 0 0))) \<and>
   dict_has ''neck'' (joints
      (setitem (setitem (Skeleton_init 1) ''head'' (Point_init 1 2 3)) ''neck'' (Point_init 0 0 0))) \<and>
   contains (setitem (setitem (Skeleton_init 1) ''head'' (Point_init 1 2 3)) ''neck'' (Point_init 0 0 0))
     [''head'', ''neck''] \<and>
   \<not> contains (setitem (Skeleton_init 1) ''head'' (Point_init 1 2 3)) [''head'', ''neck'']"
  using contains_iff_joint_keys
    [of "setitem (setitem (Skeleton_init 1) ''head'' (Point_init 1 2 3)) ''neck'' (Point_init 0 0 0)"
        "[''head'', ''neck'']"]
    contains_iff_joint_keys
    [of "setitem (Skeleton_init 1) ''head'' (Point_init 1 2 3)" "[''head'', ''neck'']"]
  by (simp add: setitem_def Skeleton_init_def)

section \<open>The joint handler\<close>

lemma ensure_user_fields [simp]:
  "users (ensure_user s u) = users s"
  "frames (ensure_user s u) = frames s"
  "lostUsers (ensure_user s u) = lostUsers s"
  "realWorld (ensure_user s u) = realWorld s"
  by (simp_all add: ensure_user_def)

lemma ensure_user_has [simp]: "dict_has u (users_priv (ensure_user s u))"
  by (simp add: ensure_user_def)

text \<open>
  The promotion in closed form: the completed entry of \<open>u\<close> takes the joints and the
  orientations of the snapshot being assembled, which is then emptied, and the frame
  counter goes up by one.
\<close>

lemma promote_eq:
  "promote s u sk =
     s\<lparr>users := DAList.update u
          ((case DAList.lookup (users s) u of None \<Rightarrow> Skeleton_init u | Some d \<Rightarrow> d)
             \<lparr>joints := joints sk, orient := orient sk\<rparr>) (users s),
       users_priv := DAList.update u (clear sk) (users_priv s),
       frames := frames s + 1\<rparr>"
  by (cases "DAList.lookup (users s) u")
     (simp_all add: promote_def dict_has_def Let_def copy_joints_eq)

text \<open>
  Claim C5. A joint message with the raw coordinates \<open>rawX\<close>, \<open>rawY\<close>, \<open>rawZ\<close> is
  handled without an exception, and afterwards the snapshot being assembled for the
  user holds under the label the point \<open>(rawX, rawY, rawZ)\<close> when \<open>realWorld\<close> is
  off, and the point \<open>(1280 - rawX * 2560, 960 - rawY * 1920, - rawZ * 1280)\<close> when it
  is on. The witness is the raw input \<open>(0.5, 0.5, 0.5)\<close>, stored as \<open>(0, 0, -640)\<close>.
\<close>

theorem joint_callback_stores_transformed_point:
  "\<exists>s' sk'. joint_callback s l u [rawX, rawY, rawZ] = (s', None) \<and>
      DAList.lookup (users_priv s') u = Some sk' \<and>
      DAList.lookup (joints sk') (str l) =
        Some (if realWorld s
              then Point_init (1280 - rawX * 2560) (960 - rawY * 1920) (- rawZ * 1280)
              else Point_init rawX rawY rawZ)"
proof -
  obtain sk where sk: "DAList.lookup (users_priv (ensure_user s u)) u = Some sk"
    using ensure_user_has [of u s] by (auto simp: dict_has_lookup)
  show ?thesis
    by (simp add: joint_callback_def Let_def sk promote_eq store_joint_def setitem_def)
qed

theorem joint_callback_stores_transformed_point_witness:
  "realWorld (OSCeleton_init\<lparr>realWorld := True\<rparr>) \<and>
   (\<exists>s' sk'. joint_callback (OSCeleton_init\<lparr>realWorld := True\<rparr>) (LabelStr ''head'') 1 [1/2, 1/2, 1/2] = (s', None) \<and>
      DAList.lookup (users_priv s') 1 = Some sk' \<and>
      DAList.lookup (joints sk') ''head'' = Some (Point_init 0 0 (- 640)))"
  using joint_callback_stores_transformed_point
    [of "OSCeleton_init\<lparr>realWorld := True\<rparr>" "LabelStr ''head''" 1 "1/2" "1/2" "1/2"]
  by (simp add: OSCeleton_init_def)

text \<open>
  Claim C1. Let the snapshot \<open>sk\<close> being assembled for user \<open>u\<close> already hold a point
  \<open>p\<close> under the label of an incoming joint message (the value an earlier message for
  that label left there). Handling the message promotes once: the frame counter goes up
  by exactly one; the completed entry of \<open>u\<close>, whatever it was, now has the joints and
  orientations of \<open>sk\<close>, so it holds \<open>p\<close> under the label and not the new value; the
  snapshot being assembled for \<open>u\<close> is emptied and then holds the point of the new
  message as its only joint. The entries of the other users and the lost-user list stay
  as they were.
\<close>

theorem joint_callback_duplicate_promotes:
  assumes inprog: "DAList.lookup (users_priv s) u = Some sk"
    and dup: "DAList.lookup (joints sk) (str l) = Some p"
  shows "\<exists>s' done sk'. joint_callback s l u [x, y, z] = (s', None) \<and>
      frames s' = frames s + 1 \<and>
      DAList.lookup (users s') u = Some done \<and>
      joints done = joints sk \<and> orient done = orient sk \<and>
      DAList.lookup (joints done) (str l) = Some p \<and>
      DAList.lookup (users_priv s') u = Some sk' \<and>
      joints sk' = DAList.update (str l)
        (if realWorld s then Point_init (1280 - x * 2560) (960 - y * 1920) (- z * 1280)
         else Point_init x y z) DAList.empty \<and>
      orient sk' = DAList.empty \<and>
      (\<forall>v. v \<noteq> u \<longrightarrow> DAList.lookup (users s') v = DAList.lookup (users s) v \<and>
         DAList.lookup (users_priv s') v = DAList.lookup (users_priv s) v) \<and>
      lostUsers s' = lostUsers s"
proof -
  have ens: "ensure_user s u = s"
    using inprog by (simp add: ensure_user_def dict_has_def)
  have has: "dict_has (str l) (joints sk)"
    using dup by (simp add: dict_has_def)
  show ?thesis
    using dup
    by (simp add: joint_callback_def Let_def ens inprog has promote_eq store_joint_def
        setitem_def clear_def DAList.lookup_update)
qed

text \<open>
  The witness sends two joint messages for label \<open>head\<close> of user 1 to the initial
  state: the first value \<open>(1, 2, 3)\<close> is the one promoted, the second value
  \<open>(4, 5, 6)\<close> starts the next snapshot.
\<close>

theorem joint_callback_duplicate_promotes_witness:
  "DAList.lookup (users_priv (fst (joint_callback OSCeleton_init (LabelStr ''head'') 1 [1, 2, 3]))) 1 =
     Some (setitem (Skeleton_init 1) ''head'' (Point_init 1 2 3)) \<and>
   DAList.lookup (joints (setitem (Skeleton_init 1) ''head'' (Point_init 1 2 3))) (str (LabelStr ''head'')) =
     Some (Point_init 1 2 3) \<and>
   (\<exists>s' done sk'.
      joint_callback (fst (joint_callback OSCeleton_init (LabelStr ''head'') 1 [1, 2, 3]))
        (LabelStr ''head'') 1 [4, 5, 6] = (s', None) \<and>
      frames s' = 1 \<and>
      DAList.lookup (users s') 1 = Some done \<and>
      DAList.lookup (joints done) ''head'' = Some (Point_init 1 2 3) \<and>
      DAList.lookup (users_priv s') 1 = Some sk' \<and>
      joints sk' = DAList.update ''head'' (Point_init 4 5 6) DAList.empty)"
proof -
  let ?s1 = "fst (joint_callback OSCeleton_init (LabelStr ''head'') 1 [1, 2, 3])"
  let ?sk = "setitem (Skeleton_init 1) ''head'' (Point_init 1 2 3)"
  have s1: "?s1 = OSCeleton_init\<lparr>users_priv := DAList.update 1 ?sk DAList.empty\<rparr>"
    by (simp add: joint_callback_def Let_def ensure_user_def OSCeleton_init_def
        store_joint_def Skeleton_init_def)
  have h1: "DAList.lookup (users_priv ?s1) 1 = Some ?sk"
    by (simp add: s1)
  have h2: "DAList.lookup (joints ?sk) (str (LabelStr ''head'')) = Some (Point_init 1 2 3)"
    by (simp add: setitem_def)
  have fr: "frames ?s1 = 0" "\<not> realWorld ?s1"
    unfolding s1 by (simp_all add: OSCeleton_init_def)
  show ?thesis
    using h1 h2 joint_callback_duplicate_promotes [OF h1 h2, of 4 5 6] fr
    by (simp del: str.simps) (auto simp: )
qed

section \<open>The orientation handler\<close>

text \<open>
  Claim C6. An orientation message with nine values is handled without an exception.
  Afterwards the user has a snapshot being assembled (created empty when there was
  none); its orientations hold the three rows \<open>[m0, m1, m2]\<close>, \<open>[m3, m4, m5]\<close>,
  \<open>[m6, m7, m8]\<close> under the label and are unchanged under every other label; its
  joints are what they were; the snapshots of the other users, the frame counter, the
  completed snapshots, the lost-user list and the flag are unchanged. This holds for
  every state, so also when the label already had an orientation: no promotion happens.
\<close>

theorem orient_callback_stores_rows:
  "\<exists>s' sk'. orient_callback s l u [m0, m1, m2, m3, m4, m5, m6, m7, m8] = (s', None) \<and>
      DAList.lookup (users_priv s') u = Some sk' \<and>
      DAList.lookup (orient sk') (str l) = Some [[m0, m1, m2], [m3, m4, m5], [m6, m7, m8]] \<and>
      (\<forall>k. k \<noteq> str l \<longrightarrow>
         DAList.lookup (orient sk') k =
           (case DAList.lookup (users_priv s) u of None \<Rightarrow> None
            | Some sk \<Rightarrow> DAList.lookup (orient sk) k)) \<and>
      joints sk' =
        (case DAList.lookup (users_priv s) u of None \<Rightarrow> DAList.empty | Some sk \<Rightarrow> joints sk) \<and>
      (\<forall>v. v \<noteq> u \<longrightarrow> DAList.lookup (users_priv s') v = DAList.lookup (users_priv s) v) \<and>
      frames s' = frames s \<and> users s' = users s \<and> lostUsers s' = lostUsers s \<and>
      realWorld s' = realWorld s"
proof (cases "DAList.lookup (users_priv s) u")
  case None
  then show ?thesis
    by (simp add: orient_callback_def Let_def ensure_user_def dict_has_def
        DAList.lookup_update Skeleton_init_def)
next
  case (Some sk)
  then show ?thesis
    by (simp add: orient_callback_def Let_def ensure_user_def dict_has_def
        DAList.lookup_update)
qed

text \<open>
  The witness sends two orientation messages for label 3 of user 7 to the initial state:
  the second replaces the rows of the first and nothing is promoted.
\<close>

theorem orient_callback_stores_rows_witness:
  "\<exists>s' sk'.
      orient_callback (fst (orient_callback OSCeleton_init (LabelInt 3) 7 [9, 8, 7, 6, 5, 4, 3, 2, 1]))
        (LabelInt 3) 7 [1, 2, 3, 4, 5, 6, 7, 8, 9] = (s', None) \<and>
      DAList.lookup (users_priv s') 7 = Some sk' \<and>
      DAList.lookup (orient sk') ''3'' = Some [[1, 2, 3], [4, 5, 6], [7, 8, 9]] \<and>
      DAList.lookup (orient sk') ''head'' = None \<and>
      joints sk' = DAList.empty \<and>
      DAList.lookup (users_priv s') 8 = None \<and>
      frames s' = 0 \<and> users s' = DAList.empty \<and> lostUsers s' = []"
proof -
  let ?s1 = "fst (orient_callback OSCeleton_init (LabelInt 3) 7 [9, 8, 7, 6, 5, 4, 3, 2, 1])"
  have l3: "str (LabelInt 3) = ''3''"
    by (simp add: str_nat.simps)
  have s1: "?s1 = OSCeleton_init\<lparr>users_priv := DAList.update 7
      ((Skeleton_init 7)\<lparr>orient := DAList.update ''3'' [[9, 8, 7], [6, 5, 4], [3, 2, 1]] DAList.empty\<rparr>)
      DAList.empty\<rparr>"
    by (simp add: orient_callback_def Let_def ensure_user_def OSCeleton_init_def
        Skeleton_init_def l3 del: str.simps)
  have st: "frames ?s1 = 0" "users ?s1 = DAList.empty" "lostUsers ?s1 = []"
    "DAList.lookup (users_priv ?s1) 8 = None"
    "DAList.lookup (users_priv ?s1) 7 = Some ((Skeleton_init 7)\<lparr>orient := DAList.update ''3'' [[9, 8, 7], [6, 5, 4], [3, 2, 1]] DAList.empty\<rparr>)"
    unfolding s1 by (simp_all add: OSCeleton_init_def)
  show ?thesis
    using orient_callback_stores_rows [of ?s1 "LabelInt 3" 7 1 2 3 4 5 6 7 8 9] st
    by (simp add: l3 Skeleton_init_def del: str.simps) (auto simp: DAList.lookup_update)
qed

section \<open>User lifecycle\<close>

text \<open>
  The claim that a lost-user event always appends the user to the lost-user list fails
  for a user that has no snapshot being assembled: in the initial state the event for
  user 5 leaves the list empty.
\<close>

theorem lost_user_callback_unknown_counterexample:
  "\<not> dict_has 5 (users_priv OSCeleton_init) \<and> \<not> dict_has 5 (users OSCeleton_init) \<and>
   lostUsers (lost_user_callback OSCeleton_init 5) = [] \<and>
   lostUsers (lost_user_callback OSCeleton_init 5) \<noteq> lostUsers OSCeleton_init @ [5]"
  by (simp add: lost_user_callback_def OSCeleton_init_def)

text \<open>
  Claim C3, amended. When \<open>u\<close> has a snapshot being assembled, a lost-user event
  deletes it, appends \<open>u\<close> to the lost-user list, and deletes the completed snapshot
  of \<open>u\<close> when there is one (none is not an error); the other users, the frame counter
  and the flag are unchanged. When \<open>u\<close> has no snapshot being assembled, the event
  changes nothing at all: nothing is appended to the lost-user list. No exception
  leaves the handler in either case.
\<close>

theorem lost_user_callback_effect:
  "(dict_has u (users_priv s) \<longrightarrow>
      \<not> dict_has u (users_priv (lost_user_callback s u)) \<and>
      \<not> dict_has u (users (lost_user_callback s u)) \<and>
      lostUsers (lost_user_callback s u) = lostUsers s @ [u] \<and>
      (\<forall>v. v \<noteq> u \<longrightarrow>
         DAList.lookup (users_priv (lost_user_callback s u)) v = DAList.lookup (users_priv s) v \<and>
         DAList.lookup (users (lost_user_callback s u)) v = DAList.lookup (users s) v) \<and>
      frames (lost_user_callback s u) = frames s \<and>
      realWorld (lost_user_callback s u) = realWorld s) \<and>
   (\<not> dict_has u (users_priv s) \<longrightarrow> lost_user_callback s u = s)"
  by (simp add: lost_user_callback_def Let_def)

theorem lost_user_callback_effect_witness:
  "dict_has 5 (users_priv (new_user_callback OSCeleton_init 5)) \<and>
   \<not> dict_has 5 (users_priv (lost_user_callback (new_user_callback OSCeleton_init 5) 5)) \<and>
   lostUsers (lost_user_callback (new_user_callback OSCeleton_init 5) 5) = [5] \<and>
   \<not> dict_has 6 (users_priv (new_user_callback OSCeleton_init 5)) \<and>
   lost_user_callback (new_user_callback OSCeleton_init 5) 6 = new_user_callback OSCeleton_init 5"
  using lost_user_callback_effect [of 5 "new_user_callback OSCeleton_init 5"]
    lost_user_callback_effect [of 6 "new_user_callback OSCeleton_init 5"]
  by (simp add: new_user_callback_def OSCeleton_init_def)

text \<open>
  The claim that a second new-user event leaves the joints of a user being assembled
  unchanged fails: after a joint message for user 1 the snapshot holds \<open>head\<close>; a
  new-user event for user 1 replaces it by an empty snapshot.
\<close>

theorem new_user_callback_resets_counterexample:
  "DAList.lookup (users_priv (fst (joint_callback OSCeleton_init (LabelStr ''head'') 1 [1, 2, 3]))) 1 =
     Some (setitem (Skeleton_init 1) ''head'' (Point_init 1 2 3)) \<and>
   DAList.lookup
     (users_priv (new_user_callback (fst (joint_callback OSCeleton_init (LabelStr ''head'') 1 [1, 2, 3])) 1)) 1 =
     Some (Skeleton_init 1) \<and>
   joints (setitem (Skeleton_init 1) ''head'' (Point_init 1 2 3)) \<noteq> joints (Skeleton_init 1)"
proof -
  have "DAList.lookup (joints (setitem (Skeleton_init 1) ''head'' (Point_init 1 2 3))) ''head'' \<noteq>
        DAList.lookup (joints (Skeleton_init 1)) ''head''"
    by (simp add: setitem_def Skeleton_init_def)
  then have "joints (setitem (Skeleton_init 1) ''head'' (Point_init 1 2 3)) \<noteq> joints (Skeleton_init 1)"
    by auto
  moreover have "fst (joint_callback OSCeleton_init (LabelStr ''head'') 1 [1, 2, 3]) =
      OSCeleton_init\<lparr>users_priv :=
        DAList.update 1 (setitem (Skeleton_init 1) ''head'' (Point_init 1 2 3)) DAList.empty\<rparr>"
    by (simp add: joint_callback_def Let_def ensure_user_def OSCeleton_init_def
        store_joint_def Skeleton_init_def)
  ultimately show ?thesis
    by (simp add: new_user_callback_def)
qed

text \<open>
  Claim C4, amended. A new-user event for \<open>u\<close> installs a fresh empty snapshot as the
  one being assembled for \<open>u\<close>, whether or not there was one before (an existing one
  is replaced, its joints and orientations are dropped). The snapshots of the other
  users, the completed snapshots, the frame counter, the lost-user list and the flag are
  unchanged.
\<close>

theorem new_user_callback_effect:
  "DAList.lookup (users_priv (new_user_callback s u)) u = Some (Skeleton_init u) \<and>
   (\<forall>v. v \<noteq> u \<longrightarrow>
      DAList.lookup (users_priv (new_user_callback s u)) v = DAList.lookup (users_priv s) v) \<and>
   users (new_user_callback s u) = users s \<and>
   frames (new_user_callback s u) = frames s \<and>
   lostUsers (new_user_callback s u) = lostUsers s \<and>
   realWorld (new_user_callback s u) = realWorld s"
  by (simp add: new_user_callback_def)

theorem new_user_callback_effect_witness:
  "DAList.lookup (users_priv (new_user_callback (new_user_callback OSCeleton_init 2) 1)) 1 =
     Some (Skeleton_init 1) \<and>
   DAList.lookup (users_priv (new_user_callback (new_user_callback OSCeleton_init 2) 1)) 2 =
     Some (Skeleton_init 2) \<and>
   users (new_user_callback (new_user_callback OSCeleton_init 2) 1) = DAList.empty"
  using new_user_callback_effect [of "new_user_callback OSCeleton_init 2" 1]
  by (simp add: new_user_callback_def OSCeleton_init_def)

section \<open>Draining the completed snapshots\<close>

text \<open>
  What a joint message can do to the state: the user is ensured, the snapshot is
  promoted or not, and the point is stored unless the handler raised before.
\<close>

lemma joint_callback_state:
  assumes sk: "DAList.lookup (users_priv (ensure_user s u)) u = Some sk"
  shows "\<exists>s2 sk2. (s2 = ensure_user s u \<or> s2 = promote (ensure_user s u) u sk) \<and>
     (fst (joint_callback s l u cs) = s2 \<or>
      fst (joint_callback s l u cs) = s2\<lparr>users_priv := DAList.update u sk2 (users_priv s2)\<rparr>)"
  by (auto simp: joint_callback_def Let_def sk store_joint_def split: option.splits list.splits)

lemma ensure_user_lookup_ex: "\<exists>sk. DAList.lookup (users_priv (ensure_user s u)) u = Some sk"
  using ensure_user_has [of u s] by (simp add: dict_has_lookup)












section \<open>Completed users are being assembled\<close>

lemma step_users_tracked:
  assumes "set (dict_keys (users s)) \<subseteq> set (dict_keys (users_priv s))"
  shows "set (dict_keys (users (step s e))) \<subseteq> set (dict_keys (users_priv (step s e)))"
proof (cases e)
  case (Joint l u cs)
  obtain sk where sk: "DAList.lookup (users_priv (ensure_user s u)) u = Some sk"
    using ensure_user_lookup_ex by blast
  from joint_callback_state [OF sk, of l cs] assms show ?thesis
    by (auto simp: Joint set_dict_keys promote_eq ensure_user_def split: if_splits)
next
  case (Orient l u ms)
  then show ?thesis
    using assms
    by (auto simp: set_dict_keys orient_callback_def Let_def ensure_user_def
        split: option.splits if_splits)
next
  case (LostUser u)
  then show ?thesis
    using assms by (auto simp: set_dict_keys lost_user_callback_def Let_def)
qed (use assms in \<open>auto simp: set_dict_keys new_user_callback_def new_skeleton_callback_def
      do_nothing_callback_def get_new_skeletons_def Let_def\<close>)

lemma run_users_tracked:
  "set (dict_keys (users s)) \<subseteq> set (dict_keys (users_priv s)) \<Longrightarrow>
   set (dict_keys (users (run s evs))) \<subseteq> set (dict_keys (users_priv (run s evs)))"
proof (induction evs arbitrary: s)
  case Nil
  then show ?case by (simp add: run_def)
next
  case (Cons e evs)
  from Cons.prems have "set (dict_keys (users (step s e))) \<subseteq> set (dict_keys (users_priv (step s e)))"
    by (rule step_users_tracked)
  then have "set (dict_keys (users (run (step s e) evs))) \<subseteq>
             set (dict_keys (users_priv (run (step s e) evs)))"
    by (rule Cons.IH)
  then show ?case by (simp add: run_def)
qed

text \<open>
  Claim C10. In every state reached from the initial state by handler calls, accessor
  calls and assignments to the flag, also after a handler raised, every user that has a
  completed snapshot has a snapshot being assembled: the keys of \<open>users\<close> are among
  the ids that \<open>get_users\<close> returns.
\<close>

theorem completed_users_are_assembling:
  "set (dict_keys (users (run OSCeleton_init evs))) \<subseteq> set (get_users (run OSCeleton_init evs))"
  unfolding get_users_def
  by (rule run_users_tracked) (simp add: OSCeleton_init_def)

end
